theory Spec2Isabelle
  imports Main "HOL-Library.Sublist"
begin

section \<open>Python strings\<close>

text \<open>
  A Python \<open>str\<close> is a sequence of Unicode code points, and \<open>len\<close>, slicing and
  \<open>endswith\<close> count code points. The status texts of \<open>main.py\<close> hold code points
  beyond one byte, and \<open>str(e)[:50]\<close> cuts after fifty code points, so a string is
  modelled as the list of its code points. \<open>lit\<close> turns an ASCII literal into one.
\<close>

type_synonym str = "nat list"

definition lit :: "string \<Rightarrow> str" where
  "lit s = map of_char s"

text \<open>The line feed, written \<open>\n\<close> in the source.\<close>

definition LF :: nat where
  "LF = 10"

text \<open>
  The three symbols of the status texts: U+2705 (check mark), U+274C (cross mark) and
  the warning sign U+26A0 followed by the variation selector U+FE0F.
\<close>

definition CHECK :: str where
  "CHECK = [0x2705]"

definition CROSS :: str where
  "CROSS = [0x274C]"

definition WARN :: str where
  "WARN = [0x26A0, 0xFE0F]"

text \<open>
  \<open>str.lower()\<close>. The letters \<open>A\<close> to \<open>Z\<close> move to \<open>a\<close> to \<open>z\<close>; every other code
  point is left as it is. Python also lowers letters beyond ASCII, but none of them
  becomes one of the code points of \<open>.pdf\<close>, the only text the lowered string is
  compared with (line 122).
\<close>

definition lower_cp :: "nat \<Rightarrow> nat" where
  "lower_cp c = (if 65 \<le> c \<and> c \<le> 90 then c + 32 else c)"

definition lower :: "str \<Rightarrow> str" where
  "lower s = map lower_cp s"

definition endswith :: "str \<Rightarrow> str \<Rightarrow> bool" where
  "endswith s suf = suffix suf s"

definition startswith :: "str \<Rightarrow> str \<Rightarrow> bool" where
  "startswith s pre = prefix pre s"

text \<open>\<open>s.replace('\n', '<br/>')\<close> of line 113: each line feed becomes the five code points of the markup.\<close>

fun replace_newline :: "str \<Rightarrow> str" where
  "replace_newline [] = []"
| "replace_newline (c # cs) =
     (if c = LF then lit ''<br/>'' @ replace_newline cs else c # replace_newline cs)"

text \<open>
  \<open>os.path.join(a, b)\<close> of the POSIX path module, for one component: a component that
  starts with the separator replaces what came before it.
\<close>

definition path_join :: "str \<Rightarrow> str \<Rightarrow> str" where
  "path_join a b =
     (if startswith b (lit ''/'') then b
      else if a = [] \<or> endswith a (lit ''/'') then a @ b
      else a @ lit ''/'' @ b)"

section \<open>The request\<close>

text \<open>The class \<open>ReportRequest\<close> (lines 17 to 29); Python's \<open>int\<close> is unbounded.\<close>

record ReportRequest =
  title :: str
  pages :: int
  section_title :: str
  section_body :: str
  filename :: "str option"

definition default_title :: str where
  "default_title = lit ''Seminar Report: The Web (World Wide Web)''"

definition default_section_title :: str where
  "default_section_title = lit ''Chapter: The Evolution of the Web''"

definition default_section_body :: str where
  "default_section_body =
     lit ''The Web has evolved from a collection of static documents into a dynamic, interactive, and intelligent ecosystem.'' @ [LF] @
     lit ''It started with Web 1.0, primarily focused on static pages, progressed into Web 2.0 characterized by user-generated content '' @
     lit ''and social platforms, and is currently transitioning into Web 3.0, which emphasizes decentralization, security, trustless systems, '' @
     lit ''semantic understanding, and immersive digital experiences.'' @ [LF, LF] @
     lit ''The Web continues to be the backbone of the digital era, enabling communication, business, entertainment, and global connectivity.'' @ [LF] @
     lit ''Detailed studies show that the future Web will integrate AI, blockchain, edge computing, and mixed reality technologies.''"

definition default_filename :: str where
  "default_filename = lit ''Web_Seminar_Report_80Pages.pdf''"

text \<open>
  The body of a request before validation. Every field may be absent (\<open>None\<close>), and
  \<open>filename\<close>, declared \<open>Optional[str]\<close>, may also be sent as \<open>null\<close> (\<open>Some None\<close>).
\<close>

record raw_request =
  raw_title :: "str option"
  raw_pages :: "int option"
  raw_section_title :: "str option"
  raw_section_body :: "str option"
  raw_filename :: "str option option"

datatype validation_error = PagesBelowMinimum int | PagesAboveMaximum int

text \<open>
  Validation as the fields declare it: a missing field takes its default, and
  \<open>pages\<close> carries \<open>ge=1, le=200\<close> (line 19).
\<close>

definition validate_ReportRequest :: "raw_request \<Rightarrow> validation_error + ReportRequest" where
  "validate_ReportRequest raw =
     (let n = (case raw_pages raw of None \<Rightarrow> 80 | Some k \<Rightarrow> k) in
      if n < 1 then Inl (PagesBelowMinimum n)
      else if 200 < n then Inl (PagesAboveMaximum n)
      else Inr \<lparr>title = (case raw_title raw of None \<Rightarrow> default_title | Some t \<Rightarrow> t),
                pages = n,
                section_title = (case raw_section_title raw of None \<Rightarrow> default_section_title | Some t \<Rightarrow> t),
                section_body = (case raw_section_body raw of None \<Rightarrow> default_section_body | Some t \<Rightarrow> t),
                filename = (case raw_filename raw of None \<Rightarrow> Some default_filename | Some f \<Rightarrow> f)\<rparr>)"

section \<open>Filename resolution\<close>

text \<open>
  Lines 121 to 123. \<open>payload.filename or "..."\<close> takes the default for \<open>None\<close> and for
  the empty string, both false in Python.
\<close>

definition resolve_filename :: "str option \<Rightarrow> str" where
  "resolve_filename fn =
     (let safe_name = (case fn of None \<Rightarrow> default_filename
                       | Some f \<Rightarrow> if f = [] then default_filename else f)
      in if \<not> endswith (lower safe_name) (lit ''.pdf'') then safe_name @ lit ''.pdf''
         else safe_name)"

definition out_dir :: str where
  "out_dir = lit ''/mnt/data''"

text \<open>Line 126: the path handed to the document template and returned to the caller.\<close>

definition report_file_path :: "str option \<Rightarrow> str" where
  "report_file_path fn = path_join out_dir (resolve_filename fn)"

section \<open>Exceptions of the libraries\<close>

text \<open>
  What a library call may raise: an instance of \<open>Exception\<close>, with the text \<open>str(e)\<close>
  gives for it. \<open>ImportError\<close> is kept apart because the probe has a handler of its
  own for it (line 74); every other class is caught by \<open>except Exception\<close> alone.
\<close>

datatype exc = ImportError str | OtherException str

fun str_of :: "exc \<Rightarrow> str" where
  "str_of (ImportError m) = m"
| "str_of (OtherException m) = m"

datatype 'a outcome = Returns 'a | Raises exc

section \<open>POST /generate-report\<close>

text \<open>
  The two paragraph styles of lines 96 to 100: \<open>styles["Title"]\<close>, and \<open>Body\<close>, derived
  from \<open>Normal\<close> with a leading of 16 and justified alignment.
\<close>

datatype style = TitleStyle | BodyStyle

text \<open>The blocks handed to the document template.\<close>

datatype flowable = Paragraph str style | PageBreak

text \<open>
  The layout library and the file system are outside the repository; the handler sees
  them through four calls, each of which either succeeds or raises:
  the imports and the style sheet (lines 90 to 100), the constructor \<open>Paragraph\<close>, which
  parses its markup, \<open>os.makedirs\<close>, and \<open>SimpleDocTemplate(file_path).build(content)\<close>.
\<close>

record report_env =
  reportlab_setup :: "exc option"
  Paragraph_init :: "str \<Rightarrow> style \<Rightarrow> exc option"
  makedirs :: "str \<Rightarrow> exc option"
  doc_build :: "str \<Rightarrow> flowable list \<Rightarrow> exc option"

text \<open>The calls that reach the file system, in the order the handler makes them.\<close>

datatype call = MakeDirs str | BuildDoc str "flowable list"

record report_response =
  status :: str
  file_path :: str

text \<open>
  What the caller gets instead of a response: the \<open>HTTPException\<close> of line 132 with
  its status code and detail, or the framework's rejection of a body that fails
  validation (status 422), raised before the handler is entered.
\<close>

datatype http_error = HTTPException nat str | RequestValidationError validation_error

fun status_code :: "http_error \<Rightarrow> nat" where
  "status_code (HTTPException c d) = c"
| "status_code (RequestValidationError v) = 422"

text \<open>
  The two f-strings of lines 104 to 107 and 111 to 114, with their line feeds and
  indentation. The second has a backslash inside its replacement field, which Python
  accepts from version 3.12 on; there the field is an ordinary expression.
\<close>

definition intro_text :: "ReportRequest \<Rightarrow> str" where
  "intro_text payload =
     [LF] @ lit ''        <b>'' @ title payload @ lit ''</b><br/><br/>'' @ [LF] @
     lit ''        This report provides an extensive analysis of the Web, its evolution, architecture, technologies, applications, and future trends.'' @ [LF] @
     lit ''        ''"

definition section_html :: "ReportRequest \<Rightarrow> str" where
  "section_html payload =
     [LF] @ lit ''        <b>'' @ section_title payload @ lit ''</b><br/><br/>'' @ [LF] @
     lit ''        '' @ replace_newline (section_body payload) @ [LF] @
     lit ''        ''"

definition new_Paragraph :: "report_env \<Rightarrow> str \<Rightarrow> style \<Rightarrow> exc + flowable" where
  "new_Paragraph env text st =
     (case Paragraph_init env text st of Some e \<Rightarrow> Inl e | None \<Rightarrow> Inr (Paragraph text st))"

text \<open>The loop of lines 117 to 119, \<open>n\<close> rounds still to go.\<close>

fun add_sections :: "report_env \<Rightarrow> str \<Rightarrow> nat \<Rightarrow> flowable list \<Rightarrow> exc + flowable list" where
  "add_sections env html 0 content = Inr content"
| "add_sections env html (Suc n) content =
     (case new_Paragraph env html BodyStyle of
        Inl e \<Rightarrow> Inl e
      | Inr p \<Rightarrow> add_sections env html n (content @ [p, PageBreak]))"

definition pages_to_add :: "ReportRequest \<Rightarrow> int" where
  "pages_to_add payload = max (pages payload - 1) 1"

text \<open>Lines 102 to 119. \<open>range(k)\<close> runs \<open>k\<close> times, and not at all for \<open>k \<le> 0\<close>.\<close>

definition build_content :: "report_env \<Rightarrow> ReportRequest \<Rightarrow> exc + flowable list" where
  "build_content env payload =
     (case new_Paragraph env (intro_text payload) TitleStyle of
        Inl e \<Rightarrow> Inl e
      | Inr intro \<Rightarrow>
          add_sections env (section_html payload) (nat (pages_to_add payload)) [intro, PageBreak])"

text \<open>Line 132: every exception caught becomes a server error that carries its text.\<close>

definition server_error :: "exc \<Rightarrow> http_error" where
  "server_error e = HTTPException 500 (str_of e)"

text \<open>The handler, lines 88 to 132, with the calls it has made when it ends.\<close>

definition generate_report :: "report_env \<Rightarrow> ReportRequest \<Rightarrow> call list \<times> (http_error + report_response)" where
  "generate_report env payload =
     (case reportlab_setup env of
        Some e \<Rightarrow> ([], Inl (server_error e))
      | None \<Rightarrow>
         (case build_content env payload of
            Inl e \<Rightarrow> ([], Inl (server_error e))
          | Inr content \<Rightarrow>
             (let safe_name = resolve_filename (filename payload) in
              case makedirs env out_dir of
                Some e \<Rightarrow> ([MakeDirs out_dir], Inl (server_error e))
              | None \<Rightarrow>
                 (let path = path_join out_dir safe_name in
                  case doc_build env path content of
                    Some e \<Rightarrow> ([MakeDirs out_dir, BuildDoc path content], Inl (server_error e))
                  | None \<Rightarrow> ([MakeDirs out_dir, BuildDoc path content],
                              Inr \<lparr>status = lit ''ok'', file_path = path\<rparr>)))))"

text \<open>The route: the body is validated against \<open>ReportRequest\<close> first, and the handler runs on what passes.\<close>

definition post_generate_report :: "report_env \<Rightarrow> raw_request \<Rightarrow> call list \<times> (http_error + report_response)" where
  "post_generate_report env raw =
     (case validate_ReportRequest raw of
        Inl v \<Rightarrow> ([], Inl (RequestValidationError v))
      | Inr payload \<Rightarrow> generate_report env payload)"



text \<open>An environment in which every call of the layout library and the file system succeeds.\<close>

definition quiet_env :: report_env where
  "quiet_env = \<lparr>reportlab_setup = None, Paragraph_init = (\<lambda>t s. None),
                 makedirs = (\<lambda>p. None), doc_build = (\<lambda>p c. None)\<rparr>"


section \<open>Where a path lies\<close>

text \<open>
  To say that a path lies inside a directory, both are cut at the separator and
  read from the left: empty and \<open>.\<close> segments are dropped and a \<open>..\<close> segment removes
  the segment before it, as the file system resolves them (links apart).
\<close>

fun split_from :: "str \<Rightarrow> str \<Rightarrow> str list" where
  "split_from cur [] = [cur]"
| "split_from cur (c # cs) =
     (if c = 47 then cur # split_from [] cs else split_from (cur @ [c]) cs)"

definition split_sep :: "str \<Rightarrow> str list" where
  "split_sep p = split_from [] p"

fun resolve_segments :: "str list \<Rightarrow> str list \<Rightarrow> str list" where
  "resolve_segments st [] = st"
| "resolve_segments st (s # ss) =
     (if s = [] \<or> s = lit ''.'' then resolve_segments st ss
      else if s = lit ''..'' then resolve_segments (butlast st) ss
      else resolve_segments (st @ [s]) ss)"

definition resolved :: "str \<Rightarrow> str list" where
  "resolved p = resolve_segments [] (split_sep p)"

definition is_absolute :: "str \<Rightarrow> bool" where
  "is_absolute p = startswith p (lit ''/'')"

definition inside_dir :: "str \<Rightarrow> str \<Rightarrow> bool" where
  "inside_dir dir p = (is_absolute p \<and> strict_prefix (resolved dir) (resolved p))"

section \<open>GET /test\<close>

text \<open>
  The object \<open>db\<close> of the optional module \<open>database\<close>, as the probe uses it: reading
  its attribute \<open>name\<close> (\<open>Returns None\<close> when it has none, so that \<open>hasattr\<close> is false)
  and calling \<open>list_collection_names()\<close>.
\<close>

record db_handle =
  db_name :: "str option outcome"
  list_collection_names :: "str list outcome"

text \<open>
  What the probe meets: the import of line 56, which raises or gives \<open>db\<close> (\<open>None\<close> when
  the module has not set it up), and the environment variables.
\<close>

record probe_env =
  import_db :: "db_handle option outcome"
  environ :: "(str \<times> str) list"

text \<open>\<open>os.getenv(key)\<close>: the value of the variable, \<open>None\<close> when it is not set.\<close>

definition getenv :: "probe_env \<Rightarrow> str \<Rightarrow> str option" where
  "getenv env key = map_of (environ env) key"

record test_response =
  backend :: str
  database :: str
  database_url :: "str option"
  database_name :: "str option"
  connection_status :: str
  collections :: "str list"

definition initial_response :: test_response where
  "initial_response =
     \<lparr>backend = CHECK @ lit '' Running'',
      database = CROSS @ lit '' Not Available'',
      database_url = None,
      database_name = None,
      connection_status = lit ''Not Connected'',
      collections = []\<rparr>"

text \<open>The inner \<open>try\<close> of lines 65 to 70, which catches whatever the listing raises.\<close>

definition list_collections :: "db_handle \<Rightarrow> test_response \<Rightarrow> test_response" where
  "list_collections db r =
     (case list_collection_names db of
        Returns cs \<Rightarrow> r\<lparr>collections := take 10 cs,
                         database := CHECK @ lit '' Connected & Working''\<rparr>
      | Raises e \<Rightarrow> r\<lparr>database := WARN @ lit ''  Connected but Error: '' @ take 50 (str_of e)\<rparr>)"

text \<open>
  The body of the outer \<open>try\<close>, lines 56 to 72: the response as far as it was filled
  in, and the exception that left the body, if one did.
\<close>

definition probe_body :: "probe_env \<Rightarrow> test_response \<Rightarrow> test_response \<times> exc option" where
  "probe_body env r =
     (case import_db env of
        Raises e \<Rightarrow> (r, Some e)
      | Returns None \<Rightarrow> (r\<lparr>database := WARN @ lit ''  Available but not initialized''\<rparr>, None)
      | Returns (Some db) \<Rightarrow>
         (let r1 = r\<lparr>database := CHECK @ lit '' Available'',
                      database_url := Some (CHECK @ lit '' Configured'')\<rparr> in
          case db_name db of
            Raises e \<Rightarrow> (r1, Some e)
          | Returns n \<Rightarrow>
             (let r2 = r1\<lparr>database_name := Some (case n of Some s \<Rightarrow> s
                                                   | None \<Rightarrow> CHECK @ lit '' Connected''),
                          connection_status := lit ''Connected''\<rparr>
              in (list_collections db r2, None))))"

text \<open>The handlers of lines 74 to 77.\<close>

fun handle_probe_exception :: "test_response \<Rightarrow> exc \<Rightarrow> test_response" where
  "handle_probe_exception r (ImportError m) =
     r\<lparr>database := CROSS @ lit '' Database module not found (run enable-database first)''\<rparr>"
| "handle_probe_exception r (OtherException m) =
     r\<lparr>database := CROSS @ lit '' Error: '' @ take 50 m\<rparr>"

text \<open>
  Lines 81 and 82: \<open>os.getenv\<close> gives \<open>None\<close> for a variable that is not set, and the
  conditional takes \<open>None\<close> and the empty string for false.
\<close>

definition env_status :: "str option \<Rightarrow> str" where
  "env_status v =
     (if v \<noteq> None \<and> v \<noteq> Some [] then CHECK @ lit '' Set'' else CROSS @ lit '' Not Set'')"

definition test_database :: "probe_env \<Rightarrow> test_response" where
  "test_database env =
     (let (r, raised) = probe_body env initial_response;
          r = (case raised of None \<Rightarrow> r | Some e \<Rightarrow> handle_probe_exception r e)
      in r\<lparr>database_url := Some (env_status (getenv env (lit ''DATABASE_URL''))),
           database_name := Some (env_status (getenv env (lit ''DATABASE_NAME'')))\<rparr>)"

section \<open>Facts about strings and paths\<close>

lemma pdf_code_points: "lit ''.pdf'' = [46, 112, 100, 102]"
  by (simp add: lit_def)

lemma lower_append: "lower (xs @ ys) = lower xs @ lower ys"
  by (simp add: lower_def)

lemma lower_pdf: "lower (lit ''.pdf'') = lit ''.pdf''"
  by code_simp

lemma default_filename_pdf: "endswith (lower default_filename) (lit ''.pdf'')"
  by code_simp

lemma resolve_filename_lower_pdf: "endswith (lower (resolve_filename fn)) (lit ''.pdf'')"
  by (auto simp: resolve_filename_def Let_def lower_append lower_pdf endswith_def suffix_def
      split: option.splits)

lemma split_from_plain:
  "47 \<notin> set suf \<Longrightarrow> split_from cur suf = [cur @ suf]"
  by (induction suf arbitrary: cur) auto

lemma split_from_nonempty: "split_from cur p \<noteq> []"
  by (induction p arbitrary: cur) auto

lemma split_from_append_plain:
  "47 \<notin> set suf \<Longrightarrow>
     split_from cur (pre @ suf) = butlast (split_from cur pre) @ [last (split_from cur pre) @ suf]"
proof (induction pre arbitrary: cur)
  case Nil
  then show ?case by (simp add: split_from_plain)
next
  case (Cons c pre)
  show ?case
    using Cons by (simp add: butlast_append split_from_nonempty)
qed

lemma split_sep_append_plain:
  "47 \<notin> set suf \<Longrightarrow> split_sep (pre @ suf) = butlast (split_sep pre) @ [last (split_sep pre) @ suf]"
  by (simp add: split_sep_def split_from_append_plain)

lemma resolve_segments_append:
  "resolve_segments st (xs @ ys) = resolve_segments (resolve_segments st xs) ys"
  by (induction xs arbitrary: st) auto

lemma resolve_segments_prefix:
  "lit ''..'' \<notin> set ss \<Longrightarrow> prefix st (resolve_segments st ss)"
proof (induction ss arbitrary: st)
  case Nil
  then show ?case by simp
next
  case (Cons s ss)
  have "prefix (st @ [s]) (resolve_segments (st @ [s]) ss)"
    using Cons by simp
  then have "prefix st (resolve_segments (st @ [s]) ss)"
    using append_prefixD by blast
  then show ?case
    using Cons by auto
qed

lemma last_segment_of_pdf:
  assumes "endswith (lower name) (lit ''.pdf'')"
  shows "\<exists>ss l. split_sep name = ss @ [l] \<and> 4 \<le> length l"
proof -
  from assms obtain zs where "map lower_cp name = zs @ [46, 112, 100, 102]"
    by (auto simp: endswith_def suffix_def lower_def pdf_code_points)
  then obtain pre ext where n: "name = pre @ ext" and e: "map lower_cp ext = [46, 112, 100, 102]"
    by (auto simp: map_eq_append_conv)
  have "47 \<notin> set ext"
  proof
    assume "47 \<in> set ext"
    then have "lower_cp 47 \<in> set (map lower_cp ext)" by force
    then show False by (simp add: e lower_cp_def)
  qed
  then have "split_sep name = butlast (split_sep pre) @ [last (split_sep pre) @ ext]"
    using n split_sep_append_plain by simp
  moreover have "length ext = 4"
  proof -
    have "length (map lower_cp ext) = 4" by (simp only: e) simp
    then show ?thesis by simp
  qed
  ultimately show ?thesis by auto
qed


lemma resolved_out_dir: "resolved out_dir = [lit ''mnt'', lit ''data'']"
  by code_simp

lemma split_sep_under_out_dir:
  "split_sep (out_dir @ lit ''/'' @ name) = [[], lit ''mnt'', lit ''data''] @ split_sep name"
  by (simp add: split_sep_def out_dir_def lit_def)

lemma resolved_under_out_dir:
  "resolved (out_dir @ lit ''/'' @ name) = resolve_segments [lit ''mnt'', lit ''data''] (split_sep name)"
  unfolding resolved_def split_sep_under_out_dir by (simp add: lit_def)

lemma inside_out_dir:
  assumes pdf: "endswith (lower name) (lit ''.pdf'')"
    and nodots: "lit ''..'' \<notin> set (split_sep name)"
  shows "inside_dir out_dir (out_dir @ lit ''/'' @ name)"
proof -
  let ?st = "[lit ''mnt'', lit ''data'']"
  from last_segment_of_pdf [OF pdf] obtain ss l
    where sp: "split_sep name = ss @ [l]" and len: "4 \<le> length l" by blast
  have l: "l \<noteq> [] \<and> l \<noteq> lit ''.'' \<and> l \<noteq> lit ''..''"
    using len by (auto simp: lit_def)
  have "lit ''..'' \<notin> set ss" using nodots sp by simp
  then have p: "prefix ?st (resolve_segments ?st ss)"
    by (rule resolve_segments_prefix)
  have "resolve_segments ?st (split_sep name) = resolve_segments ?st ss @ [l]"
    using l by (simp add: sp resolve_segments_append)
  then have "strict_prefix ?st (resolve_segments ?st (split_sep name))"
    using p by (auto simp: strict_prefix_def prefix_def)
  moreover have "is_absolute (out_dir @ lit ''/'' @ name)"
    by (simp add: is_absolute_def startswith_def out_dir_def lit_def)
  ultimately show ?thesis
    by (simp add: inside_dir_def resolved_out_dir resolved_under_out_dir)
qed

lemma generate_report_ok:
  "generate_report env payload = (cs, Inr r) \<Longrightarrow>
     \<exists>content. build_content env payload = Inr content \<and>
       cs = [MakeDirs out_dir, BuildDoc (report_file_path (filename payload)) content] \<and>
       file_path r = report_file_path (filename payload)"
  by (auto simp: generate_report_def report_file_path_def Let_def
      split: option.splits sum.splits)

section \<open>Facts about the content\<close>

lemma add_sections_ok:
  "Paragraph_init env html BodyStyle = None \<Longrightarrow>
     add_sections env html n content =
       Inr (content @ concat (replicate n [Paragraph html BodyStyle, PageBreak]))"
  by (induction n arbitrary: content) (simp_all add: new_Paragraph_def)



lemma pages_to_add_positive: "\<exists>n. nat (pages_to_add payload) = Suc n"
proof -
  have "0 < nat (pages_to_add payload)"
    by (simp add: pages_to_add_def)
  then show ?thesis
    by (rule gr0_implies_Suc)
qed


lemma build_content_ok:
  assumes "Paragraph_init env (intro_text payload) TitleStyle = None"
    and "Paragraph_init env (section_html payload) BodyStyle = None"
  shows "build_content env payload =
     Inr ([Paragraph (intro_text payload) TitleStyle, PageBreak] @
          concat (replicate (nat (pages_to_add payload))
                    [Paragraph (section_html payload) BodyStyle, PageBreak]))"
  using assms by (simp add: build_content_def new_Paragraph_def add_sections_ok)

lemma build_content_intro_raises:
  "Paragraph_init env (intro_text payload) TitleStyle = Some e \<Longrightarrow> build_content env payload = Inl e"
  by (simp add: build_content_def new_Paragraph_def)

lemma build_content_section_raises:
  assumes "Paragraph_init env (intro_text payload) TitleStyle = None"
    and "Paragraph_init env (section_html payload) BodyStyle = Some e"
  shows "build_content env payload = Inl e"
proof -
  obtain n where "nat (pages_to_add payload) = Suc n"
    using pages_to_add_positive by blast
  then show ?thesis
    using assms by (simp add: build_content_def new_Paragraph_def)
qed


section \<open>Filename resolution: the claims\<close>

text \<open>
  Claim C4, as the code has it. The resolved filename is the default name when
  \<open>filename\<close> is \<open>None\<close> or empty. Otherwise it is the supplied filename, with \<open>.pdf\<close>
  appended exactly when the filename in lower case does not end in \<open>.pdf\<close>: the test
  of line 122 ignores the case of the letters. A filename that ends in \<open>.pdf\<close> is left
  as it is, so the extension is never appended twice.
\<close>

theorem resolve_filename_cases:
  "resolve_filename None = default_filename \<and>
   resolve_filename (Some []) = default_filename \<and>
   (f \<noteq> [] \<longrightarrow>
      resolve_filename (Some f) =
        (if endswith (lower f) (lit ''.pdf'') then f else f @ lit ''.pdf'')) \<and>
   (f \<noteq> [] \<and> endswith f (lit ''.pdf'') \<longrightarrow> resolve_filename (Some f) = f)"
proof -
  have d: "resolve_filename None = default_filename" "resolve_filename (Some []) = default_filename"
    using default_filename_pdf by (simp_all add: resolve_filename_def)
  have l: "endswith f (lit ''.pdf'') \<Longrightarrow> endswith (lower f) (lit ''.pdf'')"
  proof -
    assume "endswith f (lit ''.pdf'')"
    then obtain pre where "f = pre @ lit ''.pdf''"
      by (auto simp: endswith_def suffix_def)
    then show ?thesis
      by (auto simp: lower_append lower_pdf endswith_def suffix_def)
  qed
  show ?thesis
    using d l by (auto simp: resolve_filename_def)
qed

text \<open>At \<open>report\<close> the path ends in \<open>report.pdf\<close>, and \<open>report.pdf\<close> stays as it is.\<close>

theorem resolve_filename_cases_witness:
  "lit ''report'' \<noteq> [] \<and>
   resolve_filename (Some (lit ''report'')) = lit ''report.pdf'' \<and>
   endswith (report_file_path (Some (lit ''report''))) (lit ''report.pdf'') \<and>
   lit ''report.pdf'' \<noteq> [] \<and> endswith (lit ''report.pdf'') (lit ''.pdf'') \<and>
   resolve_filename (Some (lit ''report.pdf'')) = lit ''report.pdf''"
proof -
  have a: "lit ''report'' \<noteq> []" by (simp add: lit_def)
  have b: "\<not> endswith (lower (lit ''report'')) (lit ''.pdf'')" by code_simp
  have c: "lit ''report'' @ lit ''.pdf'' = lit ''report.pdf''" by (simp add: lit_def)
  have d: "lit ''report.pdf'' \<noteq> []" by (simp add: lit_def)
  have e: "endswith (lit ''report.pdf'') (lit ''.pdf'')" by code_simp
  have r1: "resolve_filename (Some (lit ''report'')) = lit ''report.pdf''"
    using resolve_filename_cases [of "lit ''report''"] a b c by auto
  have r2: "resolve_filename (Some (lit ''report.pdf'')) = lit ''report.pdf''"
    using resolve_filename_cases [of "lit ''report.pdf''"] d e by blast
  have p: "endswith (path_join out_dir (lit ''report.pdf'')) (lit ''report.pdf'')" by code_simp
  show ?thesis using a d e r1 r2 p by (simp add: report_file_path_def)
qed

text \<open>
  Claim C4 as it is worded fails at \<open>report.PDF\<close>: the name does not end in \<open>.pdf\<close>,
  and yet nothing is appended to it.
\<close>

theorem resolve_filename_upper_case_counterexample:
  "lit ''report.PDF'' \<noteq> [] \<and>
   \<not> endswith (lit ''report.PDF'') (lit ''.pdf'') \<and>
   resolve_filename (Some (lit ''report.PDF'')) \<noteq> lit ''report.PDF'' @ lit ''.pdf'' \<and>
   resolve_filename (Some (lit ''report.PDF'')) = lit ''report.PDF''"
  by code_simp

text \<open>
  Claim C9. A filename that ends in a dot followed by \<open>p\<close>, \<open>d\<close>, \<open>f\<close>, each in
  either case, is resolved to itself: nothing is appended and the casing is kept. If
  one of the three letters is a capital, the resolved filename does not end in the
  lower-case \<open>.pdf\<close>.
\<close>

theorem resolve_filename_any_casing:
  "(p = 112 \<or> p = 80) \<and> (d = 100 \<or> d = 68) \<and> (f = 102 \<or> f = 70) \<longrightarrow>
     resolve_filename (Some (stem @ [46, p, d, f])) = stem @ [46, p, d, f] \<and>
     (p = 80 \<or> d = 68 \<or> f = 70 \<longrightarrow>
        \<not> endswith (resolve_filename (Some (stem @ [46, p, d, f]))) (lit ''.pdf''))"
proof (intro impI)
  assume h: "(p = 112 \<or> p = 80) \<and> (d = 100 \<or> d = 68) \<and> (f = 102 \<or> f = 70)"
  then have l: "lower (stem @ [46, p, d, f]) = lower stem @ [46, 112, 100, 102]"
    by (auto simp: lower_def lower_cp_def)
  have r: "resolve_filename (Some (stem @ [46, p, d, f])) = stem @ [46, p, d, f]"
    by (simp add: resolve_filename_def Let_def l pdf_code_points endswith_def suffix_def)
  have n: "p = 80 \<or> d = 68 \<or> f = 70 \<longrightarrow> \<not> endswith (stem @ [46, p, d, f]) (lit ''.pdf'')"
    by (auto simp: endswith_def pdf_code_points suffix_def)
  show "resolve_filename (Some (stem @ [46, p, d, f])) = stem @ [46, p, d, f] \<and>
     (p = 80 \<or> d = 68 \<or> f = 70 \<longrightarrow>
        \<not> endswith (resolve_filename (Some (stem @ [46, p, d, f]))) (lit ''.pdf''))"
    using r n by simp
qed

text \<open>The theorem at \<open>report.PDF\<close> and at \<open>report.Pdf\<close>.\<close>

theorem resolve_filename_any_casing_witness:
  "resolve_filename (Some (lit ''report.PDF'')) = lit ''report.PDF'' \<and>
   \<not> endswith (resolve_filename (Some (lit ''report.PDF''))) (lit ''.pdf'') \<and>
   resolve_filename (Some (lit ''report.Pdf'')) = lit ''report.Pdf''"
proof -
  have a: "lit ''report.PDF'' = lit ''report'' @ [46, 80, 68, 70]"
    and b: "lit ''report.Pdf'' = lit ''report'' @ [46, 80, 100, 102]"
    by (simp_all add: lit_def)
  have "resolve_filename (Some (lit ''report'' @ [46, 80, 68, 70])) = lit ''report'' @ [46, 80, 68, 70] \<and>
     \<not> endswith (resolve_filename (Some (lit ''report'' @ [46, 80, 68, 70]))) (lit ''.pdf'')"
    using resolve_filename_any_casing [of 80 68 70 "lit ''report''"] by blast
  moreover have "resolve_filename (Some (lit ''report'' @ [46, 80, 100, 102])) = lit ''report'' @ [46, 80, 100, 102]"
    using resolve_filename_any_casing [of 80 100 102 "lit ''report''"] by blast
  ultimately show ?thesis
    unfolding a b by blast
qed

section \<open>Where the report is written\<close>

text \<open>
  Claim C2, as the code has it. The path written to and returned is
  \<open>os.path.join("/mnt/data", name)\<close> for the resolved filename \<open>name\<close>. It is always
  absolute. When \<open>name\<close> does not start with the separator the path is
  \<open>/mnt/data/\<close> followed by \<open>name\<close>, and when \<open>name\<close> has no \<open>..\<close> segment either, the
  path lies inside \<open>/mnt/data\<close>. A successful call returns the very path it handed
  to the document template.
\<close>

theorem report_file_path_location:
  "is_absolute (report_file_path fn) \<and>
   (\<not> startswith (resolve_filename fn) (lit ''/'') \<longrightarrow>
      report_file_path fn = out_dir @ lit ''/'' @ resolve_filename fn) \<and>
   (\<not> startswith (resolve_filename fn) (lit ''/'') \<and>
    lit ''..'' \<notin> set (split_sep (resolve_filename fn)) \<longrightarrow>
      inside_dir out_dir (report_file_path fn)) \<and>
   (generate_report env payload = (cs, Inr r) \<longrightarrow>
      file_path r = report_file_path (filename payload) \<and>
      (\<exists>content. cs = [MakeDirs out_dir, BuildDoc (file_path r) content]))"
proof -
  have j: "\<not> startswith (resolve_filename fn) (lit ''/'') \<Longrightarrow>
      report_file_path fn = out_dir @ lit ''/'' @ resolve_filename fn"
    by (simp add: report_file_path_def path_join_def) (simp add: out_dir_def lit_def endswith_def suffix_def)
  have a: "is_absolute (report_file_path fn)"
  proof (cases "startswith (resolve_filename fn) (lit ''/'')")
    case True
    then show ?thesis by (simp add: report_file_path_def path_join_def is_absolute_def)
  next
    case False
    then show ?thesis
      by (simp add: j) (simp add: is_absolute_def startswith_def out_dir_def lit_def)
  qed
  have i: "\<not> startswith (resolve_filename fn) (lit ''/'') \<Longrightarrow>
      lit ''..'' \<notin> set (split_sep (resolve_filename fn)) \<Longrightarrow>
      inside_dir out_dir (report_file_path fn)"
    using inside_out_dir [OF resolve_filename_lower_pdf] by (simp add: j)
  have g: "generate_report env payload = (cs, Inr r) \<Longrightarrow>
      file_path r = report_file_path (filename payload) \<and>
      (\<exists>content. cs = [MakeDirs out_dir, BuildDoc (file_path r) content])"
    using generate_report_ok by fastforce
  show ?thesis using a j i g by blast
qed

text \<open>The theorem at the filename \<open>a/report\<close>, in a call where nothing raises.\<close>

theorem report_file_path_location_witness:
  "\<not> startswith (resolve_filename (Some (lit ''a/report''))) (lit ''/'') \<and>
   lit ''..'' \<notin> set (split_sep (resolve_filename (Some (lit ''a/report'')))) \<and>
   report_file_path (Some (lit ''a/report'')) = lit ''/mnt/data/a/report.pdf'' \<and>
   inside_dir out_dir (report_file_path (Some (lit ''a/report''))) \<and>
   (\<exists>cs r content.
      generate_report quiet_env
        \<lparr>title = lit ''T'', pages = 1, section_title = lit ''S'', section_body = lit ''B'',
         filename = Some (lit ''a/report'')\<rparr> = (cs, Inr r) \<and>
      file_path r = lit ''/mnt/data/a/report.pdf'' \<and>
      cs = [MakeDirs out_dir, BuildDoc (lit ''/mnt/data/a/report.pdf'') content])"
proof -
  let ?p = "\<lparr>title = lit ''T'', pages = 1, section_title = lit ''S'', section_body = lit ''B'',
         filename = Some (lit ''a/report'')\<rparr>"
  have h1: "\<not> startswith (resolve_filename (Some (lit ''a/report''))) (lit ''/'')"
    by code_simp
  have h2: "lit ''..'' \<notin> set (split_sep (resolve_filename (Some (lit ''a/report''))))"
    by code_simp
  have e: "out_dir @ lit ''/'' @ resolve_filename (Some (lit ''a/report'')) = lit ''/mnt/data/a/report.pdf''"
    by code_simp
  have p: "report_file_path (Some (lit ''a/report'')) =
      out_dir @ lit ''/'' @ resolve_filename (Some (lit ''a/report''))"
    using report_file_path_location [of "Some (lit ''a/report'')"] h1 by blast
  have i: "inside_dir out_dir (report_file_path (Some (lit ''a/report'')))"
    using report_file_path_location [of "Some (lit ''a/report'')"] h1 h2 by blast
  obtain content where c: "build_content quiet_env ?p = Inr content"
    using build_content_ok [of quiet_env ?p] by (simp add: quiet_env_def)
  obtain cs r where g: "generate_report quiet_env ?p = (cs, Inr r)"
    using c by (simp add: generate_report_def quiet_env_def Let_def)
  have "file_path r = report_file_path (filename ?p) \<and>
      (\<exists>content. cs = [MakeDirs out_dir, BuildDoc (file_path r) content])"
    using report_file_path_location [where env = quiet_env and payload = ?p and cs = cs and r = r] g
    by blast
  then have "file_path r = lit ''/mnt/data/a/report.pdf'' \<and>
      (\<exists>content. cs = [MakeDirs out_dir, BuildDoc (lit ''/mnt/data/a/report.pdf'') content])"
    using p e by auto
  then have w: "\<exists>cs r content. generate_report quiet_env ?p = (cs, Inr r) \<and>
      file_path r = lit ''/mnt/data/a/report.pdf'' \<and>
      cs = [MakeDirs out_dir, BuildDoc (lit ''/mnt/data/a/report.pdf'') content]"
    using g by blast
  have pe: "report_file_path (Some (lit ''a/report'')) = lit ''/mnt/data/a/report.pdf''"
    using p e by simp
  show ?thesis
    using h1 h2 i pe w by (simp only: simp_thms)
qed

text \<open>
  Claim C2 as it is worded fails: a filename that starts with the separator replaces
  the directory, and a \<open>..\<close> segment is kept, so both paths below leave \<open>/mnt/data\<close>.
\<close>

theorem report_file_path_outside_counterexample:
  "report_file_path (Some (lit ''/tmp/report'')) = lit ''/tmp/report.pdf'' \<and>
   \<not> inside_dir out_dir (report_file_path (Some (lit ''/tmp/report''))) \<and>
   report_file_path (Some (lit ''../report'')) = lit ''/mnt/data/../report.pdf'' \<and>
   \<not> inside_dir out_dir (report_file_path (Some (lit ''../report'')))"
  by code_simp

section \<open>Building the content\<close>




section \<open>Failures of the handler\<close>

lemma generate_report_failure:
  "snd (generate_report env payload) = Inl err \<Longrightarrow> \<exists>x. err = HTTPException 500 (str_of x)"
  by (auto simp: generate_report_def server_error_def Let_def split: option.splits sum.splits)

text \<open>
  Claim C7. Whatever raises inside the handler (the imports, the construction of a
  paragraph, the creation of the directory, the writing of the document) is caught
  at line 131 and comes out as an \<open>HTTPException\<close> with status 500 whose detail is the
  text of that exception; the handler fails in no other way.
\<close>

theorem generate_report_server_error:
  "(reportlab_setup env = Some e \<longrightarrow>
      generate_report env payload = ([], Inl (HTTPException 500 (str_of e)))) \<and>
   (reportlab_setup env = None \<and>
    Paragraph_init env (intro_text payload) TitleStyle = Some e \<longrightarrow>
      generate_report env payload = ([], Inl (HTTPException 500 (str_of e)))) \<and>
   (reportlab_setup env = None \<and>
    Paragraph_init env (intro_text payload) TitleStyle = None \<and>
    Paragraph_init env (section_html payload) BodyStyle = Some e \<longrightarrow>
      generate_report env payload = ([], Inl (HTTPException 500 (str_of e)))) \<and>
   (reportlab_setup env = None \<and> build_content env payload = Inr content \<and>
    makedirs env out_dir = Some e \<longrightarrow>
      generate_report env payload = ([MakeDirs out_dir], Inl (HTTPException 500 (str_of e)))) \<and>
   (reportlab_setup env = None \<and> build_content env payload = Inr content \<and>
    makedirs env out_dir = None \<and>
    doc_build env (report_file_path (filename payload)) content = Some e \<longrightarrow>
      generate_report env payload =
        ([MakeDirs out_dir, BuildDoc (report_file_path (filename payload)) content],
         Inl (HTTPException 500 (str_of e)))) \<and>
   (snd (generate_report env payload) = Inl err \<longrightarrow>
      status_code err = 500 \<and> (\<exists>x. err = HTTPException 500 (str_of x)))"
proof (intro conjI impI)
  assume "reportlab_setup env = Some e"
  then show "generate_report env payload = ([], Inl (HTTPException 500 (str_of e)))"
    by (simp add: generate_report_def server_error_def)
next
  assume "reportlab_setup env = None \<and> Paragraph_init env (intro_text payload) TitleStyle = Some e"
  then show "generate_report env payload = ([], Inl (HTTPException 500 (str_of e)))"
    using build_content_intro_raises [of env payload e]
    by (simp add: generate_report_def server_error_def)
next
  assume "reportlab_setup env = None \<and>
    Paragraph_init env (intro_text payload) TitleStyle = None \<and>
    Paragraph_init env (section_html payload) BodyStyle = Some e"
  then show "generate_report env payload = ([], Inl (HTTPException 500 (str_of e)))"
    using build_content_section_raises [of env payload e]
    by (simp add: generate_report_def server_error_def)
next
  assume "reportlab_setup env = None \<and> build_content env payload = Inr content \<and>
    makedirs env out_dir = Some e"
  then show "generate_report env payload = ([MakeDirs out_dir], Inl (HTTPException 500 (str_of e)))"
    by (simp add: generate_report_def server_error_def)
next
  assume "reportlab_setup env = None \<and> build_content env payload = Inr content \<and>
    makedirs env out_dir = None \<and>
    doc_build env (report_file_path (filename payload)) content = Some e"
  then show "generate_report env payload =
        ([MakeDirs out_dir, BuildDoc (report_file_path (filename payload)) content],
         Inl (HTTPException 500 (str_of e)))"
    by (simp add: generate_report_def server_error_def report_file_path_def)
next
  assume a: "snd (generate_report env payload) = Inl err"
  from generate_report_failure [OF a] show "status_code err = 500" by auto
next
  assume a: "snd (generate_report env payload) = Inl err"
  from generate_report_failure [OF a] show "\<exists>x. err = HTTPException 500 (str_of x)" .
qed

text \<open>One failure at each of the five places.\<close>

theorem generate_report_server_error_witness:
  "generate_report
     \<lparr>reportlab_setup = Some (ImportError (lit ''No module named reportlab'')),
      Paragraph_init = (\<lambda>t s. None), makedirs = (\<lambda>p. None), doc_build = (\<lambda>p c. None)\<rparr>
     \<lparr>title = lit ''T'', pages = 2, section_title = lit ''S'', section_body = lit ''B'',
      filename = None\<rparr>
     = ([], Inl (HTTPException 500 (lit ''No module named reportlab''))) \<and>
   generate_report
     \<lparr>reportlab_setup = None,
      Paragraph_init = (\<lambda>t s. if s = TitleStyle then Some (OtherException (lit ''bad markup'')) else None),
      makedirs = (\<lambda>p. None), doc_build = (\<lambda>p c. None)\<rparr>
     \<lparr>title = lit ''<'', pages = 2, section_title = lit ''S'', section_body = lit ''B'',
      filename = None\<rparr>
     = ([], Inl (HTTPException 500 (lit ''bad markup''))) \<and>
   generate_report
     \<lparr>reportlab_setup = None,
      Paragraph_init = (\<lambda>t s. if s = BodyStyle then Some (OtherException (lit ''bad markup'')) else None),
      makedirs = (\<lambda>p. None), doc_build = (\<lambda>p c. None)\<rparr>
     \<lparr>title = lit ''T'', pages = 2, section_title = lit ''S'', section_body = lit ''<'',
      filename = None\<rparr>
     = ([], Inl (HTTPException 500 (lit ''bad markup''))) \<and>
   generate_report
     \<lparr>reportlab_setup = None, Paragraph_init = (\<lambda>t s. None),
      makedirs = (\<lambda>p. Some (OtherException (lit ''Permission denied''))),
      doc_build = (\<lambda>p c. None)\<rparr>
     \<lparr>title = lit ''T'', pages = 2, section_title = lit ''S'', section_body = lit ''B'',
      filename = None\<rparr>
     = ([MakeDirs out_dir], Inl (HTTPException 500 (lit ''Permission denied''))) \<and>
   snd (generate_report
     \<lparr>reportlab_setup = None, Paragraph_init = (\<lambda>t s. None), makedirs = (\<lambda>p. None),
      doc_build = (\<lambda>p c. Some (OtherException (lit ''No space left on device'')))\<rparr>
     \<lparr>title = lit ''T'', pages = 2, section_title = lit ''S'', section_body = lit ''B'',
      filename = None\<rparr>)
     = Inl (HTTPException 500 (lit ''No space left on device'')) \<and>
   status_code (HTTPException 500 (lit ''No space left on device'')) = 500"
proof -
  let ?p = "\<lparr>title = lit ''T'', pages = 2, section_title = lit ''S'', section_body = lit ''B'',
      filename = None\<rparr>"
  let ?e1 = "\<lparr>reportlab_setup = Some (ImportError (lit ''No module named reportlab'')),
      Paragraph_init = (\<lambda>t s. None), makedirs = (\<lambda>p. None), doc_build = (\<lambda>p c. None)\<rparr>"
  let ?e2 = "\<lparr>reportlab_setup = None,
      Paragraph_init = (\<lambda>t s. if s = TitleStyle then Some (OtherException (lit ''bad markup'')) else None),
      makedirs = (\<lambda>p. None), doc_build = (\<lambda>p c. None)\<rparr>"
  let ?p2 = "\<lparr>title = lit ''<'', pages = 2, section_title = lit ''S'', section_body = lit ''B'',
      filename = None\<rparr>"
  let ?e3 = "\<lparr>reportlab_setup = None,
      Paragraph_init = (\<lambda>t s. if s = BodyStyle then Some (OtherException (lit ''bad markup'')) else None),
      makedirs = (\<lambda>p. None), doc_build = (\<lambda>p c. None)\<rparr>"
  let ?p3 = "\<lparr>title = lit ''T'', pages = 2, section_title = lit ''S'', section_body = lit ''<'',
      filename = None\<rparr>"
  let ?e4 = "\<lparr>reportlab_setup = None, Paragraph_init = (\<lambda>t s. None),
      makedirs = (\<lambda>p. Some (OtherException (lit ''Permission denied''))),
      doc_build = (\<lambda>p c. None)\<rparr>"
  let ?e5 = "\<lparr>reportlab_setup = None, Paragraph_init = (\<lambda>t s. None), makedirs = (\<lambda>p. None),
      doc_build = (\<lambda>p c. Some (OtherException (lit ''No space left on device'')))\<rparr>"
  have w1: "generate_report ?e1 ?p = ([], Inl (HTTPException 500 (lit ''No module named reportlab'')))"
    using generate_report_server_error
      [where env = ?e1 and payload = ?p and e = "ImportError (lit ''No module named reportlab'')"]
    by simp
  have w2: "generate_report ?e2 ?p2 = ([], Inl (HTTPException 500 (lit ''bad markup'')))"
    using generate_report_server_error
      [where env = ?e2 and payload = ?p2 and e = "OtherException (lit ''bad markup'')"]
    by simp
  have w3: "generate_report ?e3 ?p3 = ([], Inl (HTTPException 500 (lit ''bad markup'')))"
    using generate_report_server_error
      [where env = ?e3 and payload = ?p3 and e = "OtherException (lit ''bad markup'')"]
    by simp
  obtain c4 where c4: "build_content ?e4 ?p = Inr c4"
    using build_content_ok [of ?e4 ?p] by simp
  have w4: "generate_report ?e4 ?p = ([MakeDirs out_dir], Inl (HTTPException 500 (lit ''Permission denied'')))"
    using generate_report_server_error
      [where env = ?e4 and payload = ?p and content = c4
         and e = "OtherException (lit ''Permission denied'')"] c4
    by simp
  obtain c5 where c5: "build_content ?e5 ?p = Inr c5"
    using build_content_ok [of ?e5 ?p] by simp
  have "generate_report ?e5 ?p =
      ([MakeDirs out_dir, BuildDoc (report_file_path (filename ?p)) c5],
       Inl (HTTPException 500 (lit ''No space left on device'')))"
    using generate_report_server_error
      [where env = ?e5 and payload = ?p and content = c5
         and e = "OtherException (lit ''No space left on device'')"] c5
    by simp
  then have w5: "snd (generate_report ?e5 ?p) = Inl (HTTPException 500 (lit ''No space left on device''))"
    by simp
  have w6: "status_code (HTTPException 500 (lit ''No space left on device'')) = 500"
    using generate_report_server_error
      [where env = ?e5 and payload = ?p and err = "HTTPException 500 (lit ''No space left on device'')"] w5
    by blast
  show ?thesis
    using w1 w2 w3 w4 w5 w6 by blast
qed

section \<open>Validation of the request\<close>

text \<open>
  Claim C3. A body whose \<open>pages\<close> is below 1 or above 200 fails validation; the route
  answers with status 422, the handler is not entered and no call reaches the file
  system. A value from 1 to 200 passes on to the handler.
\<close>

theorem post_generate_report_rejects_pages:
  "(raw_pages raw = Some n \<and> (n < 1 \<or> 200 < n) \<longrightarrow>
      validate_ReportRequest raw =
        Inl (if n < 1 then PagesBelowMinimum n else PagesAboveMaximum n) \<and>
      (\<exists>v. post_generate_report env raw = ([], Inl (RequestValidationError v)) \<and>
           status_code (RequestValidationError v) = 422)) \<and>
   (raw_pages raw = Some n \<and> 1 \<le> n \<and> n \<le> 200 \<longrightarrow>
      (\<exists>payload. validate_ReportRequest raw = Inr payload \<and> pages payload = n \<and>
         post_generate_report env raw = generate_report env payload))"
  by (auto simp: validate_ReportRequest_def post_generate_report_def Let_def)

text \<open>The theorem at 0, at 201 and at 200.\<close>

theorem post_generate_report_rejects_pages_witness:
  "post_generate_report quiet_env
     \<lparr>raw_title = None, raw_pages = Some 0, raw_section_title = None, raw_section_body = None,
      raw_filename = None\<rparr>
     = ([], Inl (RequestValidationError (PagesBelowMinimum 0))) \<and>
   post_generate_report quiet_env
     \<lparr>raw_title = None, raw_pages = Some 201, raw_section_title = None, raw_section_body = None,
      raw_filename = None\<rparr>
     = ([], Inl (RequestValidationError (PagesAboveMaximum 201))) \<and>
   (\<exists>payload. validate_ReportRequest
     \<lparr>raw_title = None, raw_pages = Some 200, raw_section_title = None, raw_section_body = None,
      raw_filename = None\<rparr> = Inr payload \<and> pages payload = 200)"
proof -
  let ?r0 = "\<lparr>raw_title = None, raw_pages = Some 0, raw_section_title = None,
      raw_section_body = None, raw_filename = None\<rparr>"
  let ?r201 = "\<lparr>raw_title = None, raw_pages = Some 201, raw_section_title = None,
      raw_section_body = None, raw_filename = None\<rparr>"
  let ?r200 = "\<lparr>raw_title = None, raw_pages = Some 200, raw_section_title = None,
      raw_section_body = None, raw_filename = None\<rparr>"
  have a: "validate_ReportRequest ?r0 = Inl (PagesBelowMinimum 0)"
    using post_generate_report_rejects_pages [where raw = ?r0 and n = 0] by simp
  have b: "\<exists>v. post_generate_report quiet_env ?r0 = ([], Inl (RequestValidationError v))"
    using post_generate_report_rejects_pages [where raw = ?r0 and n = 0 and env = quiet_env] by auto
  have c: "validate_ReportRequest ?r201 = Inl (PagesAboveMaximum 201)"
    using post_generate_report_rejects_pages [where raw = ?r201 and n = 201] by simp
  have d: "\<exists>v. post_generate_report quiet_env ?r201 = ([], Inl (RequestValidationError v))"
    using post_generate_report_rejects_pages [where raw = ?r201 and n = 201 and env = quiet_env] by auto
  have e: "\<exists>payload. validate_ReportRequest ?r200 = Inr payload \<and> pages payload = 200"
    using post_generate_report_rejects_pages [where raw = ?r200 and n = 200 and env = quiet_env] by auto
  have f: "post_generate_report quiet_env ?r0 = ([], Inl (RequestValidationError (PagesBelowMinimum 0)))"
    using a b by (auto simp: post_generate_report_def)
  have g: "post_generate_report quiet_env ?r201 = ([], Inl (RequestValidationError (PagesAboveMaximum 201)))"
    using c d by (auto simp: post_generate_report_def)
  show ?thesis using e f g by blast
qed

section \<open>Line feeds of the section body\<close>









section \<open>The probe\<close>

lemma test_database_import_raises:
  "import_db env = Raises e \<Longrightarrow>
     test_database env =
       (handle_probe_exception initial_response e)
         \<lparr>database_url := Some (env_status (getenv env (lit ''DATABASE_URL''))),
          database_name := Some (env_status (getenv env (lit ''DATABASE_NAME'')))\<rparr>"
  by (simp add: test_database_def probe_body_def)

lemma test_database_not_initialized:
  "import_db env = Returns None \<Longrightarrow>
     test_database env =
       initial_response
         \<lparr>database := WARN @ lit ''  Available but not initialized'',
          database_url := Some (env_status (getenv env (lit ''DATABASE_URL''))),
          database_name := Some (env_status (getenv env (lit ''DATABASE_NAME'')))\<rparr>"
  by (simp add: test_database_def probe_body_def)

lemma test_database_name_raises:
  "import_db env = Returns (Some db) \<Longrightarrow> db_name db = Raises e \<Longrightarrow>
     database (test_database env) = database (handle_probe_exception initial_response e) \<and>
     connection_status (test_database env) = lit ''Not Connected'' \<and>
     collections (test_database env) = []"
  by (cases e) (simp_all add: test_database_def probe_body_def list_collections_def initial_response_def)

lemma test_database_listing_raises:
  "import_db env = Returns (Some db) \<Longrightarrow> db_name db = Returns nm \<Longrightarrow>
   list_collection_names db = Raises e \<Longrightarrow>
     database (test_database env) = WARN @ lit ''  Connected but Error: '' @ take 50 (str_of e) \<and>
     connection_status (test_database env) = lit ''Connected'' \<and>
     collections (test_database env) = []"
  by (simp add: test_database_def probe_body_def list_collections_def initial_response_def)

lemma test_database_listing_returns:
  "import_db env = Returns (Some db) \<Longrightarrow> db_name db = Returns nm \<Longrightarrow>
   list_collection_names db = Returns cs \<Longrightarrow>
     database (test_database env) = CHECK @ lit '' Connected & Working'' \<and>
     connection_status (test_database env) = lit ''Connected'' \<and>
     collections (test_database env) = take 10 cs"
  by (simp add: test_database_def probe_body_def list_collections_def initial_response_def)

lemma handle_probe_exception_keeps:
  "backend (handle_probe_exception r e) = backend r \<and>
   collections (handle_probe_exception r e) = collections r \<and>
   connection_status (handle_probe_exception r e) = connection_status r"
  by (cases e) simp_all

lemma list_collections_keeps:
  "backend (list_collections db r) = backend r \<and>
   length (collections (list_collections db r)) \<le> max 10 (length (collections r))"
  by (cases "list_collection_names db") (simp_all add: list_collections_def)

lemma probe_body_keeps:
  "backend (fst (probe_body env initial_response)) = CHECK @ lit '' Running'' \<and>
   length (collections (fst (probe_body env initial_response))) \<le> 10"
proof (cases "import_db env")
  case (Raises e)
  then show ?thesis by (simp add: probe_body_def initial_response_def)
next
  case (Returns d)
  show ?thesis
  proof (cases d)
    case None
    then show ?thesis using Returns by (simp add: probe_body_def initial_response_def)
  next
    case (Some db)
    show ?thesis
    proof (cases "db_name db")
      case r: (Raises e)
      then show ?thesis using Returns Some by (simp add: probe_body_def initial_response_def)
    next
      case n: (Returns nm)
      then show ?thesis
        using Returns Some list_collections_keeps
        by (cases "list_collection_names db")
          (simp_all add: probe_body_def initial_response_def list_collections_def)
    qed
  qed
qed

lemma test_database_backend: "backend (test_database env) = CHECK @ lit '' Running''"
  using probe_body_keeps [of env] handle_probe_exception_keeps
  by (cases "probe_body env initial_response"; cases "snd (probe_body env initial_response)")
    (simp_all add: test_database_def)

lemma test_database_collections_length: "length (collections (test_database env)) \<le> 10"
  using probe_body_keeps [of env] handle_probe_exception_keeps
  by (cases "probe_body env initial_response"; cases "snd (probe_body env initial_response)")
    (simp_all add: test_database_def)

lemma test_database_env_status:
  "database_url (test_database env) = Some (env_status (getenv env (lit ''DATABASE_URL''))) \<and>
   database_name (test_database env) = Some (env_status (getenv env (lit ''DATABASE_NAME'')))"
  by (simp add: test_database_def Let_def split: prod.splits)

text \<open>
  Claim C6. The probe answers whatever the optional module does. With the module
  missing, \<open>db\<close> not set up, or an exception from the import, from the attribute
  \<open>name\<close> or from the listing, the response is still returned, \<open>backend\<close> says
  \<open>Running\<close>, and \<open>database\<close> holds the text of the case: module not found, an error
  with the exception's text, not initialized, or connected but error.
\<close>

theorem test_database_always_answers:
  "backend (test_database env) = CHECK @ lit '' Running'' \<and>
   (import_db env = Raises (ImportError m) \<longrightarrow>
      database (test_database env) =
        CROSS @ lit '' Database module not found (run enable-database first)'' \<and>
      connection_status (test_database env) = lit ''Not Connected'') \<and>
   (import_db env = Raises (OtherException m) \<longrightarrow>
      database (test_database env) = CROSS @ lit '' Error: '' @ take 50 m \<and>
      connection_status (test_database env) = lit ''Not Connected'') \<and>
   (import_db env = Returns None \<longrightarrow>
      database (test_database env) = WARN @ lit ''  Available but not initialized'' \<and>
      connection_status (test_database env) = lit ''Not Connected'') \<and>
   (import_db env = Returns (Some db) \<and> db_name db = Raises (ImportError m) \<longrightarrow>
      database (test_database env) =
        CROSS @ lit '' Database module not found (run enable-database first)'' \<and>
      connection_status (test_database env) = lit ''Not Connected'') \<and>
   (import_db env = Returns (Some db) \<and> db_name db = Raises (OtherException m) \<longrightarrow>
      database (test_database env) = CROSS @ lit '' Error: '' @ take 50 m \<and>
      connection_status (test_database env) = lit ''Not Connected'') \<and>
   (import_db env = Returns (Some db) \<and> db_name db = Returns nm \<and>
    list_collection_names db = Raises e \<longrightarrow>
      database (test_database env) =
        WARN @ lit ''  Connected but Error: '' @ take 50 (str_of e) \<and>
      connection_status (test_database env) = lit ''Connected'') \<and>
   (import_db env = Returns (Some db) \<and> db_name db = Returns nm \<and>
    list_collection_names db = Returns cs \<longrightarrow>
      database (test_database env) = CHECK @ lit '' Connected & Working'' \<and>
      connection_status (test_database env) = lit ''Connected'')"
proof -
  have 1: "import_db env = Raises (ImportError m) \<longrightarrow>
      database (test_database env) =
        CROSS @ lit '' Database module not found (run enable-database first)'' \<and>
      connection_status (test_database env) = lit ''Not Connected''"
    by (simp add: test_database_import_raises) (simp add: initial_response_def)
  have 2: "import_db env = Raises (OtherException m) \<longrightarrow>
      database (test_database env) = CROSS @ lit '' Error: '' @ take 50 m \<and>
      connection_status (test_database env) = lit ''Not Connected''"
    by (simp add: test_database_import_raises) (simp add: initial_response_def)
  have 3: "import_db env = Returns None \<longrightarrow>
      database (test_database env) = WARN @ lit ''  Available but not initialized'' \<and>
      connection_status (test_database env) = lit ''Not Connected''"
    by (simp add: test_database_not_initialized) (simp add: initial_response_def)
  have 4: "import_db env = Returns (Some db) \<and> db_name db = Raises (ImportError m) \<longrightarrow>
      database (test_database env) =
        CROSS @ lit '' Database module not found (run enable-database first)'' \<and>
      connection_status (test_database env) = lit ''Not Connected''"
    using test_database_name_raises [of env db "ImportError m"] by simp
  have 5: "import_db env = Returns (Some db) \<and> db_name db = Raises (OtherException m) \<longrightarrow>
      database (test_database env) = CROSS @ lit '' Error: '' @ take 50 m \<and>
      connection_status (test_database env) = lit ''Not Connected''"
    using test_database_name_raises [of env db "OtherException m"] by simp
  have 6: "import_db env = Returns (Some db) \<and> db_name db = Returns nm \<and>
    list_collection_names db = Raises e \<longrightarrow>
      database (test_database env) =
        WARN @ lit ''  Connected but Error: '' @ take 50 (str_of e) \<and>
      connection_status (test_database env) = lit ''Connected''"
    using test_database_listing_raises [of env db nm e] by simp
  have 7: "import_db env = Returns (Some db) \<and> db_name db = Returns nm \<and>
    list_collection_names db = Returns cs \<longrightarrow>
      database (test_database env) = CHECK @ lit '' Connected & Working'' \<and>
      connection_status (test_database env) = lit ''Connected''"
    using test_database_listing_returns [of env db nm cs] by simp
  show ?thesis
    using test_database_backend [of env] 1 2 3 4 5 6 7 by blast
qed

text \<open>One probe for each of the seven cases.\<close>

theorem test_database_always_answers_witness:
  "database (test_database
      \<lparr>import_db = Raises (ImportError (lit ''No module named database'')), environ = []\<rparr>) =
     CROSS @ lit '' Database module not found (run enable-database first)'' \<and>
   database (test_database
      \<lparr>import_db = Raises (OtherException (lit ''boom'')), environ = []\<rparr>) =
     CROSS @ lit '' Error: boom'' \<and>
   database (test_database \<lparr>import_db = Returns None, environ = []\<rparr>) =
     WARN @ lit ''  Available but not initialized'' \<and>
   database (test_database
      \<lparr>import_db = Returns (Some \<lparr>db_name = Raises (ImportError (lit ''lazy'')),
                                   list_collection_names = Returns []\<rparr>),
       environ = []\<rparr>) =
     CROSS @ lit '' Database module not found (run enable-database first)'' \<and>
   database (test_database
      \<lparr>import_db = Returns (Some \<lparr>db_name = Raises (OtherException (lit ''boom'')),
                                   list_collection_names = Returns []\<rparr>),
       environ = []\<rparr>) =
     CROSS @ lit '' Error: boom'' \<and>
   database (test_database
      \<lparr>import_db = Returns (Some \<lparr>db_name = Returns (Some (lit ''app'')),
                                   list_collection_names = Raises (OtherException (lit ''timeout''))\<rparr>),
       environ = []\<rparr>) =
     WARN @ lit ''  Connected but Error: timeout'' \<and>
   database (test_database
      \<lparr>import_db = Returns (Some \<lparr>db_name = Returns (Some (lit ''app'')),
                                   list_collection_names = Returns [lit ''users'']\<rparr>),
       environ = []\<rparr>) =
     CHECK @ lit '' Connected & Working''"
proof -
  let ?d4 = "\<lparr>db_name = Raises (ImportError (lit ''lazy'')), list_collection_names = Returns []\<rparr>"
  let ?d5 = "\<lparr>db_name = Raises (OtherException (lit ''boom'')), list_collection_names = Returns []\<rparr>"
  let ?d6 = "\<lparr>db_name = Returns (Some (lit ''app'')),
              list_collection_names = Raises (OtherException (lit ''timeout''))\<rparr>"
  let ?d7 = "\<lparr>db_name = Returns (Some (lit ''app'')), list_collection_names = Returns [lit ''users'']\<rparr>"
  have t: "take 50 (lit ''boom'') = lit ''boom''" "take 50 (lit ''timeout'') = lit ''timeout''"
    by (simp_all add: lit_def)
  have a: "lit '' Error: '' @ lit ''boom'' = lit '' Error: boom''"
    "lit ''  Connected but Error: '' @ lit ''timeout'' = lit ''  Connected but Error: timeout''"
    by (simp_all add: lit_def)
  have 1: "database (test_database
      \<lparr>import_db = Raises (ImportError (lit ''No module named database'')), environ = []\<rparr>) =
     CROSS @ lit '' Database module not found (run enable-database first)''"
    using test_database_always_answers
      [where env = "\<lparr>import_db = Raises (ImportError (lit ''No module named database'')), environ = []\<rparr>"
         and m = "lit ''No module named database''"]
    by simp
  have 2: "database (test_database
      \<lparr>import_db = Raises (OtherException (lit ''boom'')), environ = []\<rparr>) =
     CROSS @ lit '' Error: boom''"
    using test_database_always_answers
      [where env = "\<lparr>import_db = Raises (OtherException (lit ''boom'')), environ = []\<rparr>"
         and m = "lit ''boom''"] t a
    by simp
  have 3: "database (test_database \<lparr>import_db = Returns None, environ = []\<rparr>) =
     WARN @ lit ''  Available but not initialized''"
    using test_database_always_answers [where env = "\<lparr>import_db = Returns None, environ = []\<rparr>"]
    by simp
  have 4: "database (test_database \<lparr>import_db = Returns (Some ?d4), environ = []\<rparr>) =
     CROSS @ lit '' Database module not found (run enable-database first)''"
    using test_database_always_answers
      [where env = "\<lparr>import_db = Returns (Some ?d4), environ = []\<rparr>" and db = ?d4
         and m = "lit ''lazy''"]
    by simp
  have 5: "database (test_database \<lparr>import_db = Returns (Some ?d5), environ = []\<rparr>) =
     CROSS @ lit '' Error: boom''"
    using test_database_always_answers
      [where env = "\<lparr>import_db = Returns (Some ?d5), environ = []\<rparr>" and db = ?d5
         and m = "lit ''boom''"] t a
    by simp
  have 6: "database (test_database \<lparr>import_db = Returns (Some ?d6), environ = []\<rparr>) =
     WARN @ lit ''  Connected but Error: timeout''"
    using test_database_always_answers
      [where env = "\<lparr>import_db = Returns (Some ?d6), environ = []\<rparr>" and db = ?d6
         and nm = "Some (lit ''app'')" and e = "OtherException (lit ''timeout'')"] t a
    by simp
  have 7: "database (test_database \<lparr>import_db = Returns (Some ?d7), environ = []\<rparr>) =
     CHECK @ lit '' Connected & Working''"
    using test_database_always_answers
      [where env = "\<lparr>import_db = Returns (Some ?d7), environ = []\<rparr>" and db = ?d7
         and nm = "Some (lit ''app'')" and cs = "[lit ''users'']"]
    by simp
  show ?thesis
    using 1 2 3 4 5 6 7 by blast
qed

text \<open>
  Claim C8. The response never lists more than ten collections: it lists the first
  ten of those the database names. An exception's text enters \<open>database\<close> cut after
  its first fifty code points, behind a fixed prefix.
\<close>

theorem test_database_bounds:
  "length (collections (test_database env)) \<le> 10 \<and>
   (import_db env = Returns (Some db) \<and> db_name db = Returns nm \<and>
    list_collection_names db = Returns cs \<longrightarrow>
      collections (test_database env) = take 10 cs) \<and>
   (import_db env = Returns (Some db) \<and> db_name db = Returns nm \<and>
    list_collection_names db = Raises e \<longrightarrow>
      database (test_database env) =
        WARN @ lit ''  Connected but Error: '' @ take 50 (str_of e) \<and>
      length (database (test_database env)) \<le> 25 + 50) \<and>
   (import_db env = Raises (OtherException m) \<longrightarrow>
      database (test_database env) = CROSS @ lit '' Error: '' @ take 50 m \<and>
      length (database (test_database env)) \<le> 9 + 50) \<and>
   (import_db env = Returns (Some db) \<and> db_name db = Raises (OtherException m) \<longrightarrow>
      database (test_database env) = CROSS @ lit '' Error: '' @ take 50 m \<and>
      length (database (test_database env)) \<le> 9 + 50)"
proof -
  have 1: "import_db env = Returns (Some db) \<and> db_name db = Returns nm \<and>
    list_collection_names db = Returns cs \<longrightarrow>
      collections (test_database env) = take 10 cs"
    using test_database_listing_returns [of env db nm cs] by simp
  have 2: "import_db env = Returns (Some db) \<and> db_name db = Returns nm \<and>
    list_collection_names db = Raises e \<longrightarrow>
      database (test_database env) =
        WARN @ lit ''  Connected but Error: '' @ take 50 (str_of e) \<and>
      length (database (test_database env)) \<le> 25 + 50"
    using test_database_listing_raises [of env db nm e] by (simp add: WARN_def lit_def)
  have 3: "import_db env = Raises (OtherException m) \<longrightarrow>
      database (test_database env) = CROSS @ lit '' Error: '' @ take 50 m \<and>
      length (database (test_database env)) \<le> 9 + 50"
    by (simp add: test_database_import_raises) (simp add: CROSS_def lit_def)
  have 4: "import_db env = Returns (Some db) \<and> db_name db = Raises (OtherException m) \<longrightarrow>
      database (test_database env) = CROSS @ lit '' Error: '' @ take 50 m \<and>
      length (database (test_database env)) \<le> 9 + 50"
    using test_database_name_raises [of env db "OtherException m"] by (simp add: CROSS_def lit_def)
  show ?thesis
    using test_database_collections_length [of env] 1 2 3 4 by blast
qed

text \<open>The theorem at twelve collections and at a text of sixty code points.\<close>

theorem test_database_bounds_witness:
  "collections (test_database
      \<lparr>import_db = Returns (Some \<lparr>db_name = Returns None,
         list_collection_names = Returns
           [lit ''c01'', lit ''c02'', lit ''c03'', lit ''c04'', lit ''c05'', lit ''c06'',
            lit ''c07'', lit ''c08'', lit ''c09'', lit ''c10'', lit ''c11'', lit ''c12'']\<rparr>),
       environ = []\<rparr>) =
     [lit ''c01'', lit ''c02'', lit ''c03'', lit ''c04'', lit ''c05'', lit ''c06'',
      lit ''c07'', lit ''c08'', lit ''c09'', lit ''c10''] \<and>
   database (test_database
      \<lparr>import_db = Returns (Some \<lparr>db_name = Returns None,
         list_collection_names = Raises (OtherException (replicate 60 120))\<rparr>),
       environ = []\<rparr>) =
     WARN @ lit ''  Connected but Error: '' @ replicate 50 120 \<and>
   database (test_database
      \<lparr>import_db = Raises (OtherException (replicate 60 120)), environ = []\<rparr>) =
     CROSS @ lit '' Error: '' @ replicate 50 120 \<and>
   database (test_database
      \<lparr>import_db = Returns (Some \<lparr>db_name = Raises (OtherException (replicate 60 120)),
         list_collection_names = Returns []\<rparr>),
       environ = []\<rparr>) =
     CROSS @ lit '' Error: '' @ replicate 50 120"
proof -
  let ?cs = "[lit ''c01'', lit ''c02'', lit ''c03'', lit ''c04'', lit ''c05'', lit ''c06'',
            lit ''c07'', lit ''c08'', lit ''c09'', lit ''c10'', lit ''c11'', lit ''c12'']"
  let ?d1 = "\<lparr>db_name = Returns None, list_collection_names = Returns ?cs\<rparr>"
  let ?d2 = "\<lparr>db_name = Returns None,
              list_collection_names = Raises (OtherException (replicate 60 120))\<rparr>"
  let ?d4 = "\<lparr>db_name = Raises (OtherException (replicate 60 120)),
              list_collection_names = Returns []\<rparr>"
  have t: "take 50 (replicate 60 (120::nat)) = replicate 50 120"
    by simp
  have 1: "collections (test_database \<lparr>import_db = Returns (Some ?d1), environ = []\<rparr>) = take 10 ?cs"
    using test_database_bounds
      [where env = "\<lparr>import_db = Returns (Some ?d1), environ = []\<rparr>" and db = ?d1
         and nm = None and cs = ?cs]
    by simp
  have 2: "database (test_database \<lparr>import_db = Returns (Some ?d2), environ = []\<rparr>) =
     WARN @ lit ''  Connected but Error: '' @ replicate 50 120"
    using test_database_bounds
      [where env = "\<lparr>import_db = Returns (Some ?d2), environ = []\<rparr>" and db = ?d2
         and nm = None and e = "OtherException (replicate 60 120)"] t
    by simp
  have 3: "database (test_database
      \<lparr>import_db = Raises (OtherException (replicate 60 120)), environ = []\<rparr>) =
     CROSS @ lit '' Error: '' @ replicate 50 120"
    using test_database_bounds
      [where env = "\<lparr>import_db = Raises (OtherException (replicate 60 120)), environ = []\<rparr>"
         and m = "replicate 60 120"] t
    by simp
  have 4: "database (test_database \<lparr>import_db = Returns (Some ?d4), environ = []\<rparr>) =
     CROSS @ lit '' Error: '' @ replicate 50 120"
    using test_database_bounds
      [where env = "\<lparr>import_db = Returns (Some ?d4), environ = []\<rparr>" and db = ?d4
         and m = "replicate 60 120"] t
    by simp
  show ?thesis
    using 1 2 3 4 by simp
qed

text \<open>
  Claim C10, as the code has it. In every response \<open>database_url\<close> and
  \<open>database_name\<close> are \<open>Set\<close> or \<open>Not Set\<close>, and which one depends only on whether
  \<open>DATABASE_URL\<close> and \<open>DATABASE_NAME\<close> are set to a value that is not empty. What the
  connected branch wrote into the two fields (\<open>Configured\<close>, the name of the database)
  is overwritten.
\<close>

theorem test_database_env_fields:
  "database_url (test_database env) =
     Some (if getenv env (lit ''DATABASE_URL'') = None \<or> getenv env (lit ''DATABASE_URL'') = Some []
           then CROSS @ lit '' Not Set'' else CHECK @ lit '' Set'') \<and>
   database_name (test_database env) =
     Some (if getenv env (lit ''DATABASE_NAME'') = None \<or> getenv env (lit ''DATABASE_NAME'') = Some []
           then CROSS @ lit '' Not Set'' else CHECK @ lit '' Set'') \<and>
   (import_db env = Returns (Some db) \<longrightarrow>
      database_url (fst (probe_body env initial_response)) = Some (CHECK @ lit '' Configured'')) \<and>
   (import_db env = Returns (Some db) \<and> db_name db = Returns (Some nm) \<longrightarrow>
      database_name (fst (probe_body env initial_response)) = Some nm)"
proof -
  have 1: "import_db env = Returns (Some db) \<longrightarrow>
      database_url (fst (probe_body env initial_response)) = Some (CHECK @ lit '' Configured'')"
    by (cases "db_name db"; cases "list_collection_names db")
      (simp_all add: probe_body_def list_collections_def)
  have 2: "import_db env = Returns (Some db) \<and> db_name db = Returns (Some nm) \<longrightarrow>
      database_name (fst (probe_body env initial_response)) = Some nm"
    by (cases "list_collection_names db") (simp_all add: probe_body_def list_collections_def)
  show ?thesis
    using test_database_env_status [of env] 1 2 by (auto simp: env_status_def)
qed

text \<open>The theorem at a connected database, with only \<open>DATABASE_URL\<close> set.\<close>

theorem test_database_env_fields_witness:
  "database_url (test_database
      \<lparr>import_db = Returns (Some \<lparr>db_name = Returns (Some (lit ''app'')),
                                   list_collection_names = Returns []\<rparr>),
       environ = [(lit ''DATABASE_URL'', lit ''mongodb://db'')]\<rparr>) = Some (CHECK @ lit '' Set'') \<and>
   database_name (test_database
      \<lparr>import_db = Returns (Some \<lparr>db_name = Returns (Some (lit ''app'')),
                                   list_collection_names = Returns []\<rparr>),
       environ = [(lit ''DATABASE_URL'', lit ''mongodb://db'')]\<rparr>) = Some (CROSS @ lit '' Not Set'') \<and>
   database_url (fst (probe_body
      \<lparr>import_db = Returns (Some \<lparr>db_name = Returns (Some (lit ''app'')),
                                   list_collection_names = Returns []\<rparr>),
       environ = [(lit ''DATABASE_URL'', lit ''mongodb://db'')]\<rparr> initial_response)) =
     Some (CHECK @ lit '' Configured'') \<and>
   database_name (fst (probe_body
      \<lparr>import_db = Returns (Some \<lparr>db_name = Returns (Some (lit ''app'')),
                                   list_collection_names = Returns []\<rparr>),
       environ = [(lit ''DATABASE_URL'', lit ''mongodb://db'')]\<rparr> initial_response)) =
     Some (lit ''app'')"
proof -
  let ?d = "\<lparr>db_name = Returns (Some (lit ''app'')), list_collection_names = Returns []\<rparr>"
  let ?e = "\<lparr>import_db = Returns (Some ?d), environ = [(lit ''DATABASE_URL'', lit ''mongodb://db'')]\<rparr>"
  have u: "getenv ?e (lit ''DATABASE_URL'') = Some (lit ''mongodb://db'')"
    by (simp add: getenv_def)
  have n: "getenv ?e (lit ''DATABASE_NAME'') = None"
    by (simp add: getenv_def lit_def)
  have v: "lit ''mongodb://db'' \<noteq> []"
    by (simp add: lit_def)
  show ?thesis
    using test_database_env_fields [where env = ?e and db = ?d and nm = "lit ''app''"] u n v
    by simp
qed

text \<open>
  Claim C10 as it is worded fails: the variable is present in both environments
  below, and the field differs, because an empty value counts as not set.
\<close>

theorem test_database_empty_variable_counterexample:
  "getenv \<lparr>import_db = Returns None, environ = [(lit ''DATABASE_URL'', [])]\<rparr>
     (lit ''DATABASE_URL'') \<noteq> None \<and>
   database_url (test_database
      \<lparr>import_db = Returns None, environ = [(lit ''DATABASE_URL'', [])]\<rparr>) =
     Some (CROSS @ lit '' Not Set'') \<and>
   getenv \<lparr>import_db = Returns None, environ = [(lit ''DATABASE_URL'', lit ''x'')]\<rparr>
     (lit ''DATABASE_URL'') \<noteq> None \<and>
   database_url (test_database
      \<lparr>import_db = Returns None, environ = [(lit ''DATABASE_URL'', lit ''x'')]\<rparr>) =
     Some (CHECK @ lit '' Set'')"
  by (simp add: test_database_env_status getenv_def env_status_def) (simp add: lit_def)

end
